theory Spec2Isabelle
  imports Complex_Main
begin

section \<open>Python primitives used by the measurement pipeline\<close>

text \<open>
  Python floats are modelled as mathematical reals: the arithmetic of the source is kept
  operation for operation, rounding of the binary representation is not modelled.
  Exceptions are values of the type \<open>py_error\<close>; a function that may raise returns
  \<open>py_error + 'a\<close>, with \<open>Inl\<close> for the exception.
\<close>

datatype py_error = ZeroDivisionError | ValueError

text \<open>\<^verbatim>\<open>a / b\<close> on Python floats raises \<^verbatim>\<open>ZeroDivisionError\<close> when \<^verbatim>\<open>b == 0\<close>.\<close>

definition py_div :: "real \<Rightarrow> real \<Rightarrow> py_error + real" where
  "py_div a b = (if b = 0 then Inl ZeroDivisionError else Inr (a / b))"

text \<open>\<^verbatim>\<open>round(x)\<close>: nearest integer, a tie goes to the even neighbour.\<close>

definition py_round :: "real \<Rightarrow> int" where
  "py_round x =
     (let f = \<lfloor>x\<rfloor>; d = x - of_int f
      in if d < 1 / 2 then f
         else if 1 / 2 < d then f + 1
         else if even f then f else f + 1)"

text \<open>\<^verbatim>\<open>round(x, n)\<close> for a non-negative number of digits \<open>n\<close>.\<close>

definition py_round_nd :: "real \<Rightarrow> nat \<Rightarrow> real" where
  "py_round_nd x n = of_int (py_round (x * 10 ^ n)) / 10 ^ n"

text \<open>\<^verbatim>\<open>d.get(key, default)\<close> on a key that may be absent.\<close>

definition get_default :: "'a option \<Rightarrow> 'a \<Rightarrow> 'a" where
  "get_default v d = (case v of None \<Rightarrow> d | Some x \<Rightarrow> x)"

text \<open>\<^verbatim>\<open>s.lower()\<close> on ASCII text, and the substring test \<^verbatim>\<open>sub in s\<close>.\<close>

definition lower_char :: "char \<Rightarrow> char" where
  "lower_char c =
     (case map_of (zip ''ABCDEFGHIJKLMNOPQRSTUVWXYZ'' ''abcdefghijklmnopqrstuvwxyz'') c of
        None \<Rightarrow> c
      | Some l \<Rightarrow> l)"

definition str_lower :: "string \<Rightarrow> string" where
  "str_lower s = map lower_char s"

fun starts_with :: "string \<Rightarrow> string \<Rightarrow> bool" where
  "starts_with [] s = True"
| "starts_with (c # cs) [] = False"
| "starts_with (c # cs) (d # ds) = (c = d \<and> starts_with cs ds)"

fun str_contains :: "string \<Rightarrow> string \<Rightarrow> bool" where
  "str_contains sub [] = (sub = [])"
| "str_contains sub (d # ds) = (starts_with sub (d # ds) \<or> str_contains sub ds)"

text \<open>
  \<^verbatim>\<open>max(xs, key=f)\<close> keeps the first element whose key is not exceeded later: the
  running best is replaced only by a strictly greater key. \<open>max_key_from\<close> is the loop
  with the running best as its state; the empty sequence raises \<^verbatim>\<open>ValueError\<close>.
\<close>

fun max_key_from :: "('a \<Rightarrow> real) \<Rightarrow> 'a \<Rightarrow> 'a list \<Rightarrow> 'a" where
  "max_key_from f best [] = best"
| "max_key_from f best (x # xs) = max_key_from f (if f best < f x then x else best) xs"

definition py_max_key :: "('a \<Rightarrow> real) \<Rightarrow> 'a list \<Rightarrow> py_error + 'a" where
  "py_max_key f xs = (case xs of [] \<Rightarrow> Inl ValueError | x # rest \<Rightarrow> Inr (max_key_from f x rest))"

section \<open>Detections and the reference-object catalogue (analyzer.py)\<close>

text \<open>
  A detection dictionary: \<open>bbox\<close> is the list \<^verbatim>\<open>[x, y, width, height]\<close> in pixels.
\<close>

record detection =
  label :: string
  confidence :: real
  bbox :: "real list"
  isCrack :: bool
  isCalibration :: bool

record ref_data =
  ref_width :: real
  ref_height :: real
  priority :: int

text \<open>\<^verbatim>\<open>REFERENCE_OBJECTS\<close>, in the insertion order of the dictionary literal.\<close>

definition REFERENCE_OBJECTS :: "(string \<times> ref_data) list" where
  "REFERENCE_OBJECTS =
    [(''bed'', \<lparr>ref_width = 1.9, ref_height = 0.5, priority = 1\<rparr>),
     (''couch'', \<lparr>ref_width = 2.0, ref_height = 0.85, priority = 2\<rparr>),
     (''sofa'', \<lparr>ref_width = 2.0, ref_height = 0.85, priority = 2\<rparr>),
     (''chair'', \<lparr>ref_width = 0.45, ref_height = 0.9, priority = 4\<rparr>),
     (''dining table'', \<lparr>ref_width = 1.2, ref_height = 0.75, priority = 3\<rparr>),
     (''refrigerator'', \<lparr>ref_width = 0.7, ref_height = 1.7, priority = 2\<rparr>),
     (''tv'', \<lparr>ref_width = 1.2, ref_height = 0.7, priority = 5\<rparr>),
     (''door'', \<lparr>ref_width = 0.9, ref_height = 2.1, priority = 1\<rparr>),
     (''toilet'', \<lparr>ref_width = 0.4, ref_height = 0.4, priority = 3\<rparr>),
     (''oven'', \<lparr>ref_width = 0.6, ref_height = 0.9, priority = 4\<rparr>),
     (''sink'', \<lparr>ref_width = 0.6, ref_height = 0.2, priority = 5\<rparr>)]"

section \<open>Reference-object scale estimator (analyzer.py, estimate\_scale\_from\_reference\_objects)\<close>

text \<open>
  The inner loop over the catalogue stops at the first key that occurs in the lower-cased
  label (\<^verbatim>\<open>break\<close>).
\<close>

definition find_ref :: "string \<Rightarrow> (string \<times> ref_data) option" where
  "find_ref lbl = find (\<lambda>(ref_name, rd). str_contains ref_name lbl) REFERENCE_OBJECTS"

text \<open>
  The candidate scale of a matched detection: the catalogue width over the pixel width
  when the box is wider than tall, the catalogue height over the pixel height otherwise.
  The source divides without a test of the denominator.
\<close>

definition ref_scale :: "ref_data \<Rightarrow> real list \<Rightarrow> py_error + real" where
  "ref_scale rd bb =
     (let bbox_width_px = bb ! 2; bbox_height_px = bb ! 3
      in if bbox_height_px < bbox_width_px then py_div (ref_width rd) bbox_width_px
         else py_div (ref_height rd) bbox_height_px)"

text \<open>
  The loop state is \<open>(best_reference, best_priority, best_m_per_px)\<close>.
\<close>

type_synonym ref_state = "string option \<times> int \<times> real option"

fun ref_loop :: "detection list \<Rightarrow> ref_state \<Rightarrow> py_error + ref_state" where
  "ref_loop [] st = Inr st"
| "ref_loop (det # dets) (best_reference, best_priority, best_m_per_px) =
     (if length (bbox det) < 4 then ref_loop dets (best_reference, best_priority, best_m_per_px)
      else case find_ref (str_lower (label det)) of
             None \<Rightarrow> ref_loop dets (best_reference, best_priority, best_m_per_px)
           | Some (ref_name, rd) \<Rightarrow>
               (case ref_scale rd (bbox det) of
                  Inl e \<Rightarrow> Inl e
                | Inr m_per_px \<Rightarrow>
                    if priority rd < best_priority
                    then ref_loop dets (Some ref_name, priority rd, Some m_per_px)
                    else ref_loop dets (best_reference, best_priority, best_m_per_px)))"

definition estimate_scale_from_reference_objects ::
  "detection list \<Rightarrow> int \<Rightarrow> int \<Rightarrow> py_error + (real option \<times> string option \<times> real)" where
  "estimate_scale_from_reference_objects detections img_width img_height =
     (case ref_loop detections (None, 999, None) of
        Inl e \<Rightarrow> Inl e
      | Inr (best_reference, best_priority, best_m_per_px) \<Rightarrow>
          (case best_m_per_px of
             Some m \<Rightarrow> Inr (Some m, best_reference,
                           max 0.5 (1.0 - (of_int best_priority - 1) * 0.1))
           | None \<Rightarrow> Inr (None, None, 0.0)))"

section \<open>Calibration-target locator (analyzer.py, find\_a4\_calibration)\<close>

text \<open>
  The OpenCV primitives are external. A contour is represented by what the source reads
  from them: \<^verbatim>\<open>contourArea\<close>, the number of vertices of \<^verbatim>\<open>approxPolyDP\<close> at 4% of the
  perimeter, the side lengths \<open>(rw, rh)\<close> of \<^verbatim>\<open>minAreaRect\<close>, the mean lightness and mean
  saturation under the contour mask, the area of the convex hull and \<^verbatim>\<open>boundingRect\<close>.
\<close>

record contour =
  cnt_area :: real
  cnt_approx_len :: nat
  cnt_rect :: "real \<times> real"
  cnt_mean_val :: real
  cnt_mean_sat :: real
  cnt_hull_area :: real
  cnt_bounding :: "int \<times> int \<times> int \<times> int"

text \<open>An entry of \<^verbatim>\<open>candidates\<close>: the keys \<^verbatim>\<open>score\<close>, \<^verbatim>\<open>rect\<close>, \<^verbatim>\<open>area\<close> and \<^verbatim>\<open>contour\<close>.\<close>

record candidate =
  cand_score :: real
  cand_rect :: "real \<times> real"
  cand_area :: real
  cand_contour :: contour

text \<open>
  One iteration of the first loop: \<open>None\<close> is a \<^verbatim>\<open>continue\<close>, \<open>Some\<close> the appended
  candidate. The division by \<open>h_img * w_img * 0.1\<close> is reached only past the area and
  solidity tests, which force the image area to be positive (lemma
  \<open>primary_candidate_image_area\<close> below).
\<close>

definition primary_candidate :: "int \<Rightarrow> int \<Rightarrow> contour \<Rightarrow> candidate option" where
  "primary_candidate h_img w_img cnt =
     (let area = cnt_area cnt;
          min_area = of_int (h_img * w_img) * 0.003;
          max_area = of_int (h_img * w_img) * 0.3
      in if area < min_area \<or> max_area < area then None
         else if cnt_approx_len cnt < 4 \<or> 6 < cnt_approx_len cnt then None
         else let (rw, rh) = cnt_rect cnt
              in if min rw rh = 0 then None
                 else let aspect = max rw rh / min rw rh
                      in if aspect < 1.2 \<or> 1.7 < aspect then None
                         else if cnt_mean_val cnt < 140 then None
                         else if 40 < cnt_mean_sat cnt then None
                         else let hull_area = cnt_hull_area cnt;
                                  solidity = (if 0 < hull_area then area / hull_area else 0)
                              in if solidity < 0.75 then None
                                 else let aspect_score = 1.0 - \<bar>aspect - 1.414\<bar> / 1.414;
                                          brightness_score = min (cnt_mean_val cnt / 255.0) 1.0;
                                          solidity_score = solidity;
                                          area_score = min (area / (of_int (h_img * w_img) * 0.1)) 1.0;
                                          saturation_score = 1.0 - cnt_mean_sat cnt / 100;
                                          total_score = aspect_score * 0.35 + brightness_score * 0.25
                                            + solidity_score * 0.2 + saturation_score * 0.15
                                            + area_score * 0.05
                                      in Some \<lparr>cand_score = total_score, cand_rect = (rw, rh),
                                               cand_area = area, cand_contour = cnt\<rparr>)"

text \<open>One iteration of the fallback loop over the contours of the brightness threshold.\<close>

definition fallback_candidate :: "int \<Rightarrow> int \<Rightarrow> contour \<Rightarrow> candidate option" where
  "fallback_candidate h_img w_img cnt =
     (let area = cnt_area cnt
      in if of_int (h_img * w_img) * 0.003 < area
         then if 4 \<le> cnt_approx_len cnt
              then let (rw, rh) = cnt_rect cnt
                   in if 0 < min rw rh
                      then let aspect = max rw rh / min rw rh
                           in if 1.2 \<le> aspect \<and> aspect \<le> 1.7
                              then Some \<lparr>cand_score = 0.5, cand_rect = (rw, rh),
                                         cand_area = area, cand_contour = cnt\<rparr>
                              else None
                      else None
              else None
         else None)"

text \<open>
  The candidate list after both passes: the fallback pass runs only when the first pass
  found nothing.
\<close>

definition a4_candidates :: "int \<Rightarrow> int \<Rightarrow> contour list \<Rightarrow> contour list \<Rightarrow> candidate list" where
  "a4_candidates h_img w_img contours bright_contours =
     (let candidates = List.map_filter (primary_candidate h_img w_img) contours
      in if candidates = []
         then List.map_filter (fallback_candidate h_img w_img) bright_contours
         else candidates)"

text \<open>
  The selection (lines 188 to 212): \<open>None\<close> is the pair \<^verbatim>\<open>(None, None)\<close>. The division
  \<open>0.297 / long_side_px\<close> is written with \<open>py_div\<close>; its error branch is part of the model.
\<close>

definition select_a4 :: "candidate list \<Rightarrow> py_error + (real \<times> real list) option" where
  "select_a4 candidates =
     (case candidates of
        [] \<Rightarrow> Inr None
      | c # cs \<Rightarrow>
          (let best = max_key_from cand_score c cs;
               (rw, rh) = cand_rect best;
               long_side_px = max rw rh
           in case py_div 0.297 long_side_px of
                Inl e \<Rightarrow> Inl e
              | Inr m_per_px \<Rightarrow>
                  (let (x, y, w, h) = cnt_bounding (cand_contour best)
                   in Inr (Some (m_per_px, [of_int x, of_int y, of_int w, of_int h])))))"

definition find_a4_calibration ::
  "int \<Rightarrow> int \<Rightarrow> contour list \<Rightarrow> contour list \<Rightarrow> py_error + (real \<times> real list) option" where
  "find_a4_calibration h_img w_img contours bright_contours =
     select_a4 (a4_candidates h_img w_img contours bright_contours)"

section \<open>Measurement synthesizer (analyzer.py, detect\_defects)\<close>

text \<open>
  What \<^verbatim>\<open>cv2.imread\<close> and the external models report for one readable image: its shape
  \<open>(h_orig, w_orig)\<close>, the contours handed to the locator, the room type and probability
  of the zero-shot classifier (after the label clean-up), the boxes of the object detector
  that were appended before it failed, if it failed (the source catches that exception),
  and the boxes of the crack detector. A box is \<^verbatim>\<open>xyxy\<close>: \<open>(x1, y1, x2, y2)\<close>.
\<close>

type_synonym xyxy = "real \<times> real \<times> real \<times> real"

record image =
  img_shape :: "int \<times> int"
  img_contours :: "contour list"
  img_bright_contours :: "contour list"
  img_room :: "string \<times> real"
  img_objects :: "(string \<times> real \<times> xyxy) list"
  img_cracks :: "(real \<times> xyxy) list"

text \<open>
  The \<^verbatim>\<open>spatial_data\<close> dictionary. A field is \<open>None\<close> when the key is absent; for
  \<open>reference_object\<close>, \<open>None\<close> is also the Python value \<^verbatim>\<open>None\<close>, which \<^verbatim>\<open>.get\<close> does not
  tell apart. The key \<^verbatim>\<open>length\<close> is the field \<open>length'\<close>.
\<close>

record spatial_data =
  width :: "real option"
  height :: "real option"
  length' :: "real option"
  area :: "real option"
  room_type :: "string option"
  room_confidence :: "real option"
  reference_object :: "string option"
  area_confidence :: "real option"
  estimation_method :: "string option"

text \<open>An entry of \<^verbatim>\<open>all_results\<close>: a detection, or the room-type entry.\<close>

datatype result_entry = Detection_entry detection | Room_type_entry string real

definition object_detection :: "string \<times> real \<times> xyxy \<Rightarrow> detection" where
  "object_detection ob =
     (case ob of (name, conf, x1, y1, x2, y2) \<Rightarrow>
        \<lparr>label = name, confidence = conf, bbox = [x1, y1, x2 - x1, y2 - y1],
         isCrack = False, isCalibration = False\<rparr>)"

text \<open>
  The crack loop, with the state \<open>(total_crack_pixel_area, max_crack_dim_px, crack_count)\<close>;
  it starts from \<open>(0, 0, 0)\<close>.
\<close>

fun crack_loop :: "(real \<times> xyxy) list \<Rightarrow> real \<times> real \<times> nat \<Rightarrow> real \<times> real \<times> nat" where
  "crack_loop [] st = st"
| "crack_loop ((conf, x1, y1, x2, y2) # boxes) (total_crack_pixel_area, max_crack_dim_px, crack_count) =
     (let bw = x2 - x1; bh = y2 - y1
      in crack_loop boxes
           (total_crack_pixel_area + bw * bh, max (max max_crack_dim_px bw) bh, crack_count + 1))"

definition crack_detection :: "real \<times> xyxy \<Rightarrow> detection" where
  "crack_detection cb =
     (case cb of (conf, x1, y1, x2, y2) \<Rightarrow>
        \<lparr>label = ''Structural Crack'', confidence = conf, bbox = [x1, y1, x2 - x1, y2 - y1],
         isCrack = True, isCalibration = False\<rparr>)"

text \<open>
  Step 5 of \<^verbatim>\<open>detect_defects\<close> (lines 376 to 415). \<open>m_per_px\<close> is \<open>Some\<close> exactly when
  \<^verbatim>\<open>is_calibrated\<close> holds in the source, so the test of \<^verbatim>\<open>is_calibrated\<close> is the case
  distinction on \<open>m_per_px\<close>. Neither \<^verbatim>\<open>area_confidence\<close> nor \<^verbatim>\<open>estimation_method\<close> is
  a key of the dictionary.
\<close>

definition spatial_measurements ::
  "real option \<Rightarrow> real \<Rightarrow> real \<Rightarrow> int \<Rightarrow> int \<Rightarrow> string \<Rightarrow> real \<Rightarrow> string option \<Rightarrow> spatial_data" where
  "spatial_measurements m_per_px total_crack_pixel_area max_crack_dim_px w_orig h_orig
       rtype rconf ref_object =
     (let sd = \<lparr>width = Some 0.0, height = Some 0.0, length' = Some 0.0, area = Some 0.0,
                room_type = Some rtype,
                room_confidence = Some (py_round_nd (rconf * 100) 1),
                reference_object = ref_object,
                area_confidence = None, estimation_method = None\<rparr>
      in case m_per_px of
           Some m \<Rightarrow>
             if 0 < total_crack_pixel_area
             then let w = (if 0 < max_crack_dim_px
                           then total_crack_pixel_area / max_crack_dim_px else 0) * m
                  in sd\<lparr>area := Some (total_crack_pixel_area * m ^ 2),
                        length' := Some (max_crack_dim_px * m),
                        width := Some w,
                        height := Some w\<rparr>
             else let floor_area_px = of_int w_orig * of_int h_orig * 0.6
                  in sd\<lparr>area := Some (floor_area_px * m ^ 2),
                        width := Some (of_int w_orig * m),
                        length' := Some (of_int h_orig * m * 0.8),
                        height := Some 2.7\<rparr>
         | None \<Rightarrow>
             if 0 < total_crack_pixel_area
             then sd\<lparr>area := Some total_crack_pixel_area,
                     length' := Some max_crack_dim_px,
                     width := Some (if 0 < max_crack_dim_px
                                    then total_crack_pixel_area / max_crack_dim_px else 0)\<rparr>
             else sd)"

text \<open>
  \<^verbatim>\<open>detect_defects\<close>. The argument is \<open>None\<close> when \<^verbatim>\<open>cv2.imread\<close> returns \<^verbatim>\<open>None\<close>. The
  result is \<^verbatim>\<open>(all_results, spatial_data, is_calibrated, [h_orig, w_orig])\<close>. The call of
  the reference-object estimator is outside the source's \<^verbatim>\<open>try\<close> block, so its exception
  leaves the function.
\<close>

definition detect_defects ::
  "image option \<Rightarrow> py_error + (result_entry list \<times> spatial_data \<times> bool \<times> int list)" where
  "detect_defects img_opt =
     (case img_opt of
        None \<Rightarrow>
          Inr ([],
               \<lparr>width = Some 0.0, height = Some 0.0, length' = Some 0.0, area = Some 0.0,
                room_type = Some ''unknown'', room_confidence = Some 0.0,
                reference_object = None, area_confidence = None, estimation_method = None\<rparr>,
               False, [0, 0])
      | Some img \<Rightarrow>
          (let (h_orig, w_orig) = img_shape img;
               (rtype, rconf) = img_room img
           in case find_a4_calibration h_orig w_orig (img_contours img) (img_bright_contours img) of
                Inl e \<Rightarrow> Inl e
              | Inr a4 \<Rightarrow>
                  (let calibration_results =
                         (case a4 of
                            Some (m, a4_bbox) \<Rightarrow>
                              [Detection_entry \<lparr>label = ''A4 Reference'', confidence = 1.0,
                                 bbox = a4_bbox, isCrack = False, isCalibration = True\<rparr>]
                          | None \<Rightarrow> []);
                       room_results = [Room_type_entry rtype rconf];
                       object_detections = map object_detection (img_objects img);
                       crack_results = map (Detection_entry \<circ> crack_detection) (img_cracks img);
                       all_results = calibration_results @ room_results
                         @ map Detection_entry object_detections @ crack_results;
                       (total_crack_pixel_area, max_crack_dim_px, crack_count) =
                         crack_loop (img_cracks img) (0, 0, 0)
                   in case a4 of
                        Some (m, a4_bbox) \<Rightarrow>
                          Inr (all_results,
                               spatial_measurements (Some m) total_crack_pixel_area max_crack_dim_px
                                 w_orig h_orig rtype rconf None,
                               True, [h_orig, w_orig])
                      | None \<Rightarrow>
                          (case estimate_scale_from_reference_objects object_detections w_orig h_orig of
                             Inl e \<Rightarrow> Inl e
                           | Inr (ref_m_per_px, ref_object, ref_confidence) \<Rightarrow>
                               Inr (all_results,
                                    spatial_measurements ref_m_per_px total_crack_pixel_area
                                      max_crack_dim_px w_orig h_orig rtype rconf ref_object,
                                    ref_m_per_px \<noteq> None, [h_orig, w_orig])))))"

section \<open>Multi-image fuser (main.py, reconstruct\_room, lines 72 to 143)\<close>

text \<open>
  \<^verbatim>\<open>room_votes\<close> is a dictionary in insertion order: a new room type is appended with the
  vote, a known one has the vote added in place.
\<close>

fun add_vote :: "(string \<times> real) list \<Rightarrow> string \<Rightarrow> real \<Rightarrow> (string \<times> real) list" where
  "add_vote [] rt conf = [(rt, 0 + conf)]"
| "add_vote ((k, v) # votes) rt conf =
     (if k = rt then (k, v + conf) # votes else (k, v) # add_vote votes rt conf)"

fun vote_loop :: "(string \<times> real) list \<Rightarrow> (string \<times> real) list \<Rightarrow> (string \<times> real) list" where
  "vote_loop [] room_votes = room_votes"
| "vote_loop ((rt, conf) # room_types) room_votes = vote_loop room_types (add_vote room_votes rt conf)"

text \<open>
  The room vote (lines 113 to 126): the winning type and
  \<open>room_votes[best_room_type] / len(room_types)\<close>.
\<close>

definition room_vote :: "(string \<times> real) list \<Rightarrow> py_error + (string \<times> real)" where
  "room_vote room_types =
     (if room_types \<noteq> []
      then case py_max_key snd (vote_loop room_types []) of
             Inl e \<Rightarrow> Inl e
           | Inr (best_room_type, votes) \<Rightarrow>
               (case py_div votes (of_nat (length room_types)) of
                  Inl e \<Rightarrow> Inl e
                | Inr rc \<Rightarrow> Inr (best_room_type, rc))
      else Inr (''unknown'', 0))"

text \<open>
  \<open>best_idx\<close>: \<^verbatim>\<open>max(range(len(all_spatial)), key=lambda i: all_spatial[i].get("area_confidence", 0))\<close>.
\<close>

definition best_index :: "spatial_data list \<Rightarrow> py_error + nat" where
  "best_index all_spatial =
     py_max_key (\<lambda>i. get_default (area_confidence (all_spatial ! i)) 0) [0..<length all_spatial]"

text \<open>The dictionary \<^verbatim>\<open>fused_spatial\<close> built from the best measurement (lines 102 to 110).\<close>

definition fused_from :: "spatial_data \<Rightarrow> spatial_data" where
  "fused_from best_spatial =
     \<lparr>width = Some (get_default (width best_spatial) 0),
      height = Some (get_default (height best_spatial) 2.7),
      length' = Some (get_default (length' best_spatial) 0),
      area = Some (py_round_nd (get_default (area best_spatial) 0) 2),
      room_type = None, room_confidence = None,
      reference_object = reference_object best_spatial,
      area_confidence = Some (get_default (area_confidence best_spatial) 0),
      estimation_method = Some (get_default (estimation_method best_spatial) ''unknown'')\<rparr>"

text \<open>
  Lines 97 to 133: the fused dictionary, the voted room type, the room confidence and the
  overall confidence.
\<close>

definition fuse ::
  "spatial_data list \<Rightarrow> (string \<times> real) list \<Rightarrow> py_error + (spatial_data \<times> string \<times> real \<times> real)" where
  "fuse all_spatial room_types =
     (if all_spatial \<noteq> []
      then case best_index all_spatial of
             Inl e \<Rightarrow> Inl e
           | Inr best_idx \<Rightarrow>
               (let fused_spatial = fused_from (all_spatial ! best_idx)
                in case room_vote room_types of
                     Inl e \<Rightarrow> Inl e
                   | Inr (best_room_type, rc) \<Rightarrow>
                       Inr (fused_spatial, best_room_type, rc,
                            (get_default (area_confidence fused_spatial) 0 + rc) / 2))
      else Inr (\<lparr>width = Some 0.0, height = Some 0.0, length' = Some 0.0, area = Some 0.0,
                 room_type = None, room_confidence = None, reference_object = None,
                 area_confidence = None, estimation_method = None\<rparr>,
                ''unknown'', 0, 0))"

text \<open>
  The loop over the uploaded files (lines 79 to 95), with the state
  \<open>(per_image_results, all_spatial, calibration_status, room_types)\<close>.
\<close>

type_synonym fuse_state =
  "(result_entry list \<times> int list) list \<times> spatial_data list \<times> bool \<times> (string \<times> real) list"

fun file_loop :: "image option list \<Rightarrow> fuse_state \<Rightarrow> py_error + fuse_state" where
  "file_loop [] st = Inr st"
| "file_loop (f # files) (per_image_results, all_spatial, calibration_status, room_types) =
     (case detect_defects f of
        Inl e \<Rightarrow> Inl e
      | Inr (detections, spatial, calibrated, img_size) \<Rightarrow>
          file_loop files
            (per_image_results @ [(detections, img_size)],
             all_spatial @ [spatial],
             (if calibrated then True else calibration_status),
             room_types @ [(get_default (room_type spatial) ''unknown'',
                            get_default (room_confidence spatial) 0)]))"

record response =
  resp_analysis_results :: "(result_entry list \<times> int list) list"
  resp_spatial_data :: spatial_data
  resp_room_type :: string
  resp_room_confidence :: real
  resp_overall_confidence :: real
  resp_is_calibrated :: bool
  resp_needs_user_confirmation :: bool

definition reconstruct_room :: "image option list \<Rightarrow> py_error + response" where
  "reconstruct_room files =
     (case file_loop files ([], [], False, []) of
        Inl e \<Rightarrow> Inl e
      | Inr (per_image_results, all_spatial, calibration_status, room_types) \<Rightarrow>
          (case fuse all_spatial room_types of
             Inl e \<Rightarrow> Inl e
           | Inr (fused_spatial, best_room_type, rc, overall_confidence) \<Rightarrow>
               Inr \<lparr>resp_analysis_results = per_image_results,
                    resp_spatial_data = fused_spatial,
                    resp_room_type = best_room_type,
                    resp_room_confidence = py_round_nd rc 1,
                    resp_overall_confidence = py_round_nd overall_confidence 1,
                    resp_is_calibrated = calibration_status,
                    resp_needs_user_confirmation = (overall_confidence < 70)\<rparr>))"

section \<open>Observations on results, and example inputs\<close>

text \<open>The measurement and the calibration flag of a result of \<open>detect_defects\<close>.\<close>

definition spatial_of ::
  "py_error + (result_entry list \<times> spatial_data \<times> bool \<times> int list) \<Rightarrow> spatial_data option" where
  "spatial_of r = (case r of Inl e \<Rightarrow> None | Inr (rs, sd, cal, sz) \<Rightarrow> Some sd)"

definition calibrated_of ::
  "py_error + (result_entry list \<times> spatial_data \<times> bool \<times> int list) \<Rightarrow> bool option" where
  "calibrated_of r = (case r of Inl e \<Rightarrow> None | Inr (rs, sd, cal, sz) \<Rightarrow> Some cal)"

text \<open>The fused dictionary of a result of \<open>fuse\<close>.\<close>

definition fused_of ::
  "py_error + (spatial_data \<times> string \<times> real \<times> real) \<Rightarrow> spatial_data option" where
  "fused_of r = (case r of Inl e \<Rightarrow> None | Inr (fused_spatial, rt, rc, oc) \<Rightarrow> Some fused_spatial)"

text \<open>The key of the fuser's selection: \<^verbatim>\<open>.get("area_confidence", 0)\<close>.\<close>

definition confidence_of :: "spatial_data \<Rightarrow> real" where
  "confidence_of sd = get_default (area_confidence sd) 0"

text \<open>
  The quantities of the specification of the crack measurement: the sum over the crack
  boxes of pixel width times pixel height, and the maximum over the crack boxes of any
  single width or height. A box is well formed when its corners are ordered, so that its
  pixel width and height are not negative.
\<close>

definition box_dims :: "(real \<times> xyxy) list \<Rightarrow> real list" where
  "box_dims boxes = concat (map (\<lambda>(conf, x1, y1, x2, y2). [x2 - x1, y2 - y1]) boxes)"

definition aggregate_pixel_area :: "(real \<times> xyxy) list \<Rightarrow> real" where
  "aggregate_pixel_area boxes =
     sum_list (map (\<lambda>(conf, x1, y1, x2, y2). (x2 - x1) * (y2 - y1)) boxes)"

definition max_crack_dimension :: "(real \<times> xyxy) list \<Rightarrow> real" where
  "max_crack_dimension boxes = Max (set (box_dims boxes))"

definition well_formed_box :: "real \<times> xyxy \<Rightarrow> bool" where
  "well_formed_box b = (case b of (conf, x1, y1, x2, y2) \<Rightarrow> x1 \<le> x2 \<and> y1 \<le> y2)"

text \<open>
  The detections the estimator matches with the catalogue, in the order of the detection
  list, each with the catalogue entry found for it; the pixel dimension used as the
  denominator of its scale, and that scale. \<open>picked\<close> is the loop state after such a match
  has been taken as the best one.
\<close>

definition match_ref :: "detection \<Rightarrow> (string \<times> ref_data \<times> detection) option" where
  "match_ref det =
     (if length (bbox det) < 4 then None
      else case find_ref (str_lower (label det)) of
             None \<Rightarrow> None
           | Some (ref_name, rd) \<Rightarrow> Some (ref_name, rd, det))"

definition matched_refs :: "detection list \<Rightarrow> (string \<times> ref_data \<times> detection) list" where
  "matched_refs dets = List.map_filter match_ref dets"

definition chosen_dimension :: "detection \<Rightarrow> real" where
  "chosen_dimension det =
     (if bbox det ! 3 < bbox det ! 2 then bbox det ! 2 else bbox det ! 3)"

definition chosen_scale :: "ref_data \<Rightarrow> detection \<Rightarrow> real" where
  "chosen_scale rd det =
     (if bbox det ! 3 < bbox det ! 2 then ref_width rd / (bbox det ! 2)
      else ref_height rd / (bbox det ! 3))"

definition ref_priority :: "string \<times> ref_data \<times> detection \<Rightarrow> int" where
  "ref_priority m = priority (fst (snd m))"

definition picked :: "string \<times> ref_data \<times> detection \<Rightarrow> ref_state" where
  "picked m = (case m of (n, rd, det) \<Rightarrow> (Some n, priority rd, Some (chosen_scale rd det)))"

text \<open>
  The longer side of the minimum-area rectangle of a contour, and its axis-aligned bounding
  box as the list the locator returns.
\<close>

definition long_side_px :: "contour \<Rightarrow> real" where
  "long_side_px cnt = max (fst (cnt_rect cnt)) (snd (cnt_rect cnt))"

definition bounding_box :: "contour \<Rightarrow> real list" where
  "bounding_box cnt =
     (case cnt_bounding cnt of (x, y, w, h) \<Rightarrow> [of_int x, of_int y, of_int w, of_int h])"

text \<open>
  A bright sheet of 297 by 210 pixels in an image of 1000 by 800 pixels, with no object and
  no crack: the locator finds it and the scale is 0.001 metres per pixel.
\<close>

definition a4_sheet :: contour where
  "a4_sheet = \<lparr>cnt_area = 62370, cnt_approx_len = 4, cnt_rect = (297, 210),
               cnt_mean_val = 200, cnt_mean_sat = 10, cnt_hull_area = 62370,
               cnt_bounding = (100, 100, 297, 210)\<rparr>"

definition example_calibrated :: image where
  "example_calibrated = \<lparr>img_shape = (800, 1000), img_contours = [a4_sheet],
      img_bright_contours = [], img_room = (''Bedroom'', 0.5), img_objects = [],
      img_cracks = []\<rparr>"

text \<open>The measurement that \<open>detect_defects\<close> returns for \<open>example_calibrated\<close>.\<close>

definition example_calibrated_measurement :: spatial_data where
  "example_calibrated_measurement =
     \<lparr>width = Some 1, height = Some 2.7, length' = Some 0.64, area = Some 0.48,
      room_type = Some ''Bedroom'', room_confidence = Some 50,
      reference_object = None, area_confidence = None, estimation_method = None\<rparr>"

text \<open>
  The same image with one crack box of 20 by 50 pixels, and with one crack box of zero
  width and 50 pixels height.
\<close>

definition example_crack :: image where
  "example_crack = example_calibrated\<lparr>img_cracks := [(0.8, 10, 10, 30, 60)]\<rparr>"

definition example_degenerate_crack :: image where
  "example_degenerate_crack = example_calibrated\<lparr>img_cracks := [(0.8, 10, 10, 10, 60)]\<rparr>"

text \<open>A bed reported by the object detector with a box of zero width and zero height.\<close>

definition degenerate_bed :: "string \<times> real \<times> xyxy" where
  "degenerate_bed = (''bed'', 0.9, 120, 80, 120, 80)"

text \<open>
  A measurement whose area has more than two decimals, and three measurements with the
  area confidences 0.9, 0.4 and 0.6.
\<close>

definition unrounded_measurement :: spatial_data where
  "unrounded_measurement =
     \<lparr>width = Some 1, height = Some 2.7, length' = Some 0.6408, area = Some 0.4806,
      room_type = Some ''Bedroom'', room_confidence = Some 50,
      reference_object = None, area_confidence = None, estimation_method = None\<rparr>"

definition example_measurements :: "spatial_data list" where
  "example_measurements =
     [\<lparr>width = Some 4, height = Some 2.7, length' = Some 3.2, area = Some 7.68,
       room_type = Some ''Bedroom'', room_confidence = Some 80,
       reference_object = None, area_confidence = Some 0.9,
       estimation_method = Some ''calibration_target''\<rparr>,
      \<lparr>width = Some 3, height = Some 2.7, length' = Some 2.4, area = Some 4.32,
       room_type = Some ''Kitchen'', room_confidence = Some 30,
       reference_object = Some ''chair'', area_confidence = Some 0.4,
       estimation_method = Some ''reference_object''\<rparr>,
      \<lparr>width = Some 5, height = Some 2.7, length' = Some 4, area = Some 12,
       room_type = Some ''Bedroom'', room_confidence = Some 60,
       reference_object = Some ''door'', area_confidence = Some 0.6,
       estimation_method = Some ''reference_object''\<rparr>]"

definition example_room_types :: "(string \<times> real) list" where
  "example_room_types = [(''Bedroom'', 80), (''Kitchen'', 30), (''Bedroom'', 60)]"

text \<open>
  Four detections: a chair, a person (not in the catalogue), a door of 300 by 700 pixels
  and a bed.
\<close>

definition example_detections :: "detection list" where
  "example_detections =
     [object_detection (''chair'', 0.7, 50, 400, 250, 700),
      object_detection (''person'', 0.9, 500, 100, 700, 700),
      object_detection (''Door'', 0.8, 600, 50, 900, 750),
      object_detection (''bed'', 0.6, 100, 500, 600, 700)]"

text \<open>
  The door of 300 by 700 pixels alone, and the same door followed by the bed whose box has
  zero width and zero height.
\<close>

definition door_only :: "detection list" where
  "door_only = [object_detection (''door'', 0.8, 600, 50, 900, 750)]"

definition door_and_degenerate_bed :: "detection list" where
  "door_and_degenerate_bed =
     [object_detection (''door'', 0.8, 600, 50, 900, 750), object_detection degenerate_bed]"

section \<open>Properties\<close>

subsection \<open>Rounding and the first maximum\<close>

lemma py_round_bounds:
  assumes "of_int a \<le> x" "x \<le> of_int b"
  shows "a \<le> py_round x \<and> py_round x \<le> b"
proof -
  have f1: "a \<le> \<lfloor>x\<rfloor>" using assms(1) by (simp add: le_floor_iff)
  have f2: "\<lfloor>x\<rfloor> \<le> b" using assms(2) by (simp add: floor_le_iff) 
  have f3: "x - of_int \<lfloor>x\<rfloor> \<noteq> 0 \<Longrightarrow> \<lfloor>x\<rfloor> + 1 \<le> b"
    using assms(2) by linarith
  have f4: "x - of_int \<lfloor>x\<rfloor> < 1/2 \<or> x - of_int \<lfloor>x\<rfloor> \<noteq> 0" by linarith
  show ?thesis using f1 f2 f3 
    by (auto simp: py_round_def Let_def)
qed

lemma py_round_nd_1_bounds:
  assumes "0 \<le> x" "x \<le> 100"
  shows "0 \<le> py_round_nd x 1 \<and> py_round_nd x 1 \<le> 100"
proof -
  have "0 \<le> py_round (x * 10) \<and> py_round (x * 10) \<le> 1000"
    using assms by (intro py_round_bounds) simp_all
  then show ?thesis by (simp add: py_round_nd_def divide_le_eq)
qed

lemma max_key_from_split:
  "\<exists>pre post. b # xs = pre @ max_key_from f b xs # post
     \<and> (\<forall>x \<in> set pre. f x < f (max_key_from f b xs))
     \<and> (\<forall>x \<in> set post. f x \<le> f (max_key_from f b xs))"
proof (induction xs arbitrary: b)
  case Nil
  have "[b] = [] @ max_key_from f b [] # []" by simp
  then show ?case by fastforce
next
  case (Cons x xs)
  show ?case
  proof (cases "f b < f x")
    case True
    define r where "r = max_key_from f x xs"
    from Cons.IH [of x] obtain pre post where
      sp: "x # xs = pre @ r # post"
      and lt: "\<forall>y \<in> set pre. f y < f r"
      and le: "\<forall>y \<in> set post. f y \<le> f r"
      unfolding r_def by blast
    have "x \<in> set (pre @ [r])"
    proof (cases pre)
      case Nil
      with sp show ?thesis by simp
    next
      case (Cons p ps)
      with sp have "x = p" by simp
      with Cons show ?thesis by simp
    qed
    then have "x \<in> set pre \<or> x = r" by auto
    with lt have "f x \<le> f r" by (auto intro: less_imp_le)
    with True have br: "f b < f r" by simp
    have eq: "max_key_from f b (x # xs) = r" using True by (simp add: r_def)
    have "b # x # xs = (b # pre) @ r # post" using sp by simp
    moreover have "\<forall>y \<in> set (b # pre). f y < f r" using lt br by simp
    ultimately show ?thesis unfolding eq using le by blast
  next
    case False
    define r where "r = max_key_from f b xs"
    from Cons.IH [of b] obtain pre post where
      sp: "b # xs = pre @ r # post"
      and lt: "\<forall>y \<in> set pre. f y < f r"
      and le: "\<forall>y \<in> set post. f y \<le> f r"
      unfolding r_def by blast
    have eq: "max_key_from f b (x # xs) = r" using False by (simp add: r_def)
    show ?thesis
    proof (cases pre)
      case Nil
      with sp have rb: "r = b" and post: "post = xs" by simp_all
      have "b # x # xs = [] @ r # (x # xs)" using rb by simp
      moreover have "\<forall>y \<in> set (x # xs). f y \<le> f r"
        using False le rb post by (auto simp: not_less)
      moreover have "\<forall>y \<in> set ([] :: 'a list). f y < f r" by simp
      ultimately show ?thesis unfolding eq by blast
    next
      case (Cons p ps)
      with sp have p: "p = b" and xs: "xs = ps @ r # post" by simp_all
      from lt Cons p have "f b < f r" by simp
      with False have xr: "f x < f r" by simp
      have "b # x # xs = (b # x # ps) @ r # post" using xs by simp
      moreover have "\<forall>y \<in> set (b # x # ps). f y < f r"
        using lt Cons p xr by simp
      ultimately show ?thesis unfolding eq using le by blast
    qed
  qed
qed

lemma max_key_from_index:
  assumes "0 < n"
  shows "\<exists>i. py_max_key f [0..<n] = Inr i \<and> i < n
           \<and> (\<forall>j < n. f j \<le> f i) \<and> (\<forall>j < i. f j < f i)"
proof -
  from assms have up: "[0..<n] = 0 # [1..<n]" by (simp add: upt_conv_Cons)
  define r where "r = max_key_from f 0 [1..<n]"
  from max_key_from_split [of 0 "[1..<n]" f] obtain pre post where
    sp: "[0..<n] = pre @ r # post"
    and lt: "\<forall>x \<in> set pre. f x < f r"
    and le: "\<forall>x \<in> set post. f x \<le> f r"
    unfolding r_def up by blast
  have len: "length pre < n"
    using arg_cong [OF sp, of length] by simp
  have "[0..<n] ! length pre = r" by (simp add: sp)
  with len have r: "r = length pre" by simp
  have "pre = take r [0..<n]" unfolding r by (simp add: sp)
  then have pre: "pre = [0..<r]" using len r by (simp add: take_upt)
  have all: "set [0..<n] = set pre \<union> {r} \<union> set post"
    by (simp add: sp)
  have "\<forall>j < n. f j \<le> f r"
  proof (intro allI impI)
    fix j assume "j < n"
    then have "j \<in> set [0..<n]" by simp
    then have "j \<in> set pre \<or> j = r \<or> j \<in> set post"
      unfolding all by blast
    with lt le show "f j \<le> f r"
      using less_imp_le [of "f j" "f r"] by blast
  qed
  moreover have "\<forall>j < r. f j < f r" using lt pre by simp
  moreover have "py_max_key f [0..<n] = Inr r"
    by (simp add: py_max_key_def up r_def)
  ultimately show ?thesis using len r by blast
qed

subsection \<open>Evaluation of the examples\<close>

lemma find_a4_calibration_a4_sheet:
  "find_a4_calibration 800 1000 [a4_sheet] [] = Inr (Some (0.001, [100, 100, 297, 210]))"
  by (simp add: find_a4_calibration_def a4_candidates_def List.map_filter_def
      primary_candidate_def a4_sheet_def select_a4_def py_div_def Let_def)

lemma py_round_nd_50: "py_round_nd 50 (Suc 0) = 50"
  by (simp add: py_round_nd_def py_round_def Let_def)

lemma detect_defects_example_calibrated:
  "spatial_of (detect_defects (Some example_calibrated)) = Some example_calibrated_measurement"
  by (simp add: detect_defects_def example_calibrated_def find_a4_calibration_a4_sheet
      spatial_of_def spatial_measurements_def example_calibrated_measurement_def
      py_round_nd_50 power2_eq_square)

lemma detect_defects_example_degenerate_crack:
  "spatial_of (detect_defects (Some example_degenerate_crack)) = Some example_calibrated_measurement"
  by (simp add: detect_defects_def example_degenerate_crack_def example_calibrated_def
      find_a4_calibration_a4_sheet spatial_of_def spatial_measurements_def
      example_calibrated_measurement_def py_round_nd_50 power2_eq_square)

subsection \<open>Unreadable image and empty batch\<close>

text \<open>
  Claim C9. When the image cannot be loaded, \<open>detect_defects\<close> returns normally: no
  detection, a measurement whose width, height, length and area are all 0, the flag
  \<open>is_calibrated\<close> false, and the size \<open>[0, 0]\<close>. No exception is raised.
\<close>

theorem detect_defects_unreadable_image:
  "detect_defects None =
     Inr ([],
          \<lparr>width = Some 0, height = Some 0, length' = Some 0, area = Some 0,
           room_type = Some ''unknown'', room_confidence = Some 0,
           reference_object = None, area_confidence = None, estimation_method = None\<rparr>,
          False, [0, 0])"
  by (simp add: detect_defects_def)

text \<open>
  Claim C10. On the empty list of files, and so the empty list of measurements, the fuser
  returns normally: width, height, length and area are 0, the room type is "unknown" with
  room confidence 0, the overall confidence is 0 and \<open>needs_user_confirmation\<close> is true.
\<close>

theorem reconstruct_room_empty:
  "reconstruct_room [] =
     Inr \<lparr>resp_analysis_results = [],
          resp_spatial_data =
            \<lparr>width = Some 0, height = Some 0, length' = Some 0, area = Some 0,
             room_type = None, room_confidence = None, reference_object = None,
             area_confidence = None, estimation_method = None\<rparr>,
          resp_room_type = ''unknown'', resp_room_confidence = 0,
          resp_overall_confidence = 0, resp_is_calibrated = False,
          resp_needs_user_confirmation = True\<rparr>"
  by (simp add: reconstruct_room_def fuse_def py_round_nd_def py_round_def)

subsection \<open>The reference-object estimator\<close>

text \<open>
  Claim C2. The claim asks that a detection whose box is zero on the axis chosen for
  scaling be skipped and that the estimator never divide by zero. The source divides
  without a test: for a detected bed whose box has zero width and zero height the
  estimator raises \<^verbatim>\<open>ZeroDivisionError\<close> instead of skipping the detection.
\<close>

theorem estimate_scale_zero_box_raises:
  "estimate_scale_from_reference_objects [object_detection degenerate_bed] 1000 800
     = Inl ZeroDivisionError"
  by (simp add: estimate_scale_from_reference_objects_def degenerate_bed_def
      object_detection_def find_ref_def REFERENCE_OBJECTS_def str_lower_def lower_char_def
      ref_scale_def py_div_def)

lemma find_ref_priority:
  assumes "find_ref lbl = Some (n, rd)"
  shows "priority rd < 999"
proof -
  from assms have "(n, rd) \<in> set REFERENCE_OBJECTS"
    unfolding find_ref_def by (auto simp: find_Some_iff in_set_conv_nth)
  then show ?thesis by (auto simp: REFERENCE_OBJECTS_def)
qed

lemma matched_refs_priority:
  assumes "m \<in> set (matched_refs dets)"
  shows "ref_priority m < 999"
proof -
  from assms obtain det where "match_ref det = Some m"
    unfolding matched_refs_def by (induction dets) (auto split: option.splits)
  then show ?thesis
    by (auto simp: match_ref_def ref_priority_def split: if_splits option.splits
        dest: find_ref_priority)
qed

lemma ref_scale_chosen:
  "chosen_dimension det \<noteq> 0 \<Longrightarrow> ref_scale rd (bbox det) = Inr (chosen_scale rd det)"
  by (auto simp: ref_scale_def chosen_dimension_def chosen_scale_def py_div_def Let_def
      split: if_splits)

lemma ref_loop_unmatched:
  "match_ref det = None \<Longrightarrow> ref_loop (det # dets) (br, bp, bm) = ref_loop dets (br, bp, bm)"
  by (auto simp: match_ref_def split: if_splits option.splits)

lemma ref_loop_matched:
  assumes "match_ref det = Some (n, rd, d)" and "chosen_dimension det \<noteq> 0"
  shows "d = det \<and> ref_loop (det # dets) (br, bp, bm) =
     (if priority rd < bp then ref_loop dets (Some n, priority rd, Some (chosen_scale rd det))
      else ref_loop dets (br, bp, bm))"
  using assms
  by (auto simp: match_ref_def ref_scale_chosen split: if_splits option.splits)

lemma ref_loop_result:
  assumes "\<forall>m \<in> set (matched_refs dets). chosen_dimension (snd (snd m)) \<noteq> 0"
  shows "((\<forall>m \<in> set (matched_refs dets). bp \<le> ref_priority m)
           \<and> ref_loop dets (br, bp, bm) = Inr (br, bp, bm))
       \<or> (\<exists>pre m post. matched_refs dets = pre @ m # post
             \<and> (\<forall>x \<in> set pre. ref_priority m < ref_priority x)
             \<and> (\<forall>x \<in> set post. ref_priority m \<le> ref_priority x)
             \<and> ref_priority m < bp
             \<and> ref_loop dets (br, bp, bm) = Inr (picked m))"
  using assms
proof (induction dets arbitrary: br bp bm)
  case Nil
  then show ?case by (simp add: matched_refs_def)
next
  case (Cons det dets)
  show ?case
  proof (cases "match_ref det")
    case None
    then have mr: "matched_refs (det # dets) = matched_refs dets"
      by (simp add: matched_refs_def)
    from Cons.prems have "\<forall>m \<in> set (matched_refs dets). chosen_dimension (snd (snd m)) \<noteq> 0"
      by (simp add: mr)
    from Cons.IH [OF this, of bp br bm] show ?thesis
      unfolding mr ref_loop_unmatched [OF None] .
  next
    case (Some m0)
    obtain n rd d where m0: "m0 = (n, rd, d)" by (cases m0) auto
    have mr: "matched_refs (det # dets) = m0 # matched_refs dets"
      using Some by (simp add: matched_refs_def)
    from Cons.prems have nz0: "chosen_dimension (snd (snd m0)) \<noteq> 0"
      and nz: "\<forall>m \<in> set (matched_refs dets). chosen_dimension (snd (snd m)) \<noteq> 0"
      by (simp_all add: mr)
    have "d = det" using Some m0 by (auto simp: match_ref_def split: if_splits option.splits)
    with nz0 m0 have cd: "chosen_dimension det \<noteq> 0" by simp
    note step = ref_loop_matched [OF Some [unfolded m0] cd, of dets br bp bm, THEN conjunct2]
    have p0: "ref_priority m0 = priority rd" by (simp add: ref_priority_def m0)
    have pk: "picked m0 = (Some n, priority rd, Some (chosen_scale rd det))"
      by (simp add: picked_def m0 \<open>d = det\<close>)
    show ?thesis
    proof (cases "priority rd < bp")
      case True
      then have loop: "ref_loop (det # dets) (br, bp, bm)
          = ref_loop dets (Some n, priority rd, Some (chosen_scale rd det))"
        using step by simp
      from Cons.IH [OF nz, of "priority rd" "Some n" "Some (chosen_scale rd det)"]
      show ?thesis
      proof (elim disjE conjE exE)
        assume all: "\<forall>m \<in> set (matched_refs dets). priority rd \<le> ref_priority m"
          and res: "ref_loop dets (Some n, priority rd, Some (chosen_scale rd det))
             = Inr (Some n, priority rd, Some (chosen_scale rd det))"
        have "matched_refs (det # dets) = [] @ m0 # matched_refs dets" by (simp add: mr)
        moreover have "\<forall>x \<in> set ([] :: (string \<times> ref_data \<times> detection) list).
            ref_priority m0 < ref_priority x" by simp
        moreover have "\<forall>x \<in> set (matched_refs dets). ref_priority m0 \<le> ref_priority x"
          using all by (simp add: p0)
        moreover have "ref_priority m0 < bp" using True by (simp add: p0)
        moreover have "ref_loop (det # dets) (br, bp, bm) = Inr (picked m0)"
          by (simp only: loop res pk)
        ultimately show ?thesis by blast
      next
        fix pre m post
        assume sp: "matched_refs dets = pre @ m # post"
          and lt: "\<forall>x \<in> set pre. ref_priority m < ref_priority x"
          and le: "\<forall>x \<in> set post. ref_priority m \<le> ref_priority x"
          and b: "ref_priority m < priority rd"
          and res: "ref_loop dets (Some n, priority rd, Some (chosen_scale rd det)) = Inr (picked m)"
        have "matched_refs (det # dets) = (m0 # pre) @ m # post" by (simp add: mr sp)
        moreover have "\<forall>x \<in> set (m0 # pre). ref_priority m < ref_priority x"
          using lt b by (simp add: p0)
        moreover have "ref_priority m < bp" using b True by simp
        moreover have "ref_loop (det # dets) (br, bp, bm) = Inr (picked m)"
          by (simp only: loop res)
        ultimately show ?thesis using le by blast
      qed
    next
      case False
      then have loop: "ref_loop (det # dets) (br, bp, bm) = ref_loop dets (br, bp, bm)"
        using step by simp
      from Cons.IH [OF nz, of bp br bm]
      show ?thesis
      proof (elim disjE conjE exE)
        assume all: "\<forall>m \<in> set (matched_refs dets). bp \<le> ref_priority m"
          and res: "ref_loop dets (br, bp, bm) = Inr (br, bp, bm)"
        have "\<forall>m \<in> set (matched_refs (det # dets)). bp \<le> ref_priority m"
          using all False by (simp add: mr p0)
        moreover have "ref_loop (det # dets) (br, bp, bm) = Inr (br, bp, bm)"
          by (simp only: loop res)
        ultimately show ?thesis by blast
      next
        fix pre m post
        assume sp: "matched_refs dets = pre @ m # post"
          and lt: "\<forall>x \<in> set pre. ref_priority m < ref_priority x"
          and le: "\<forall>x \<in> set post. ref_priority m \<le> ref_priority x"
          and b: "ref_priority m < bp"
          and res: "ref_loop dets (br, bp, bm) = Inr (picked m)"
        have "matched_refs (det # dets) = (m0 # pre) @ m # post" by (simp add: mr sp)
        moreover have "\<forall>x \<in> set (m0 # pre). ref_priority m < ref_priority x"
          using lt b False by (simp add: p0)
        moreover have "ref_loop (det # dets) (br, bp, bm) = Inr (picked m)"
          by (simp only: loop res)
        ultimately show ?thesis using le b by blast
      qed
    qed
  qed
qed

lemma confidence_by_priority:
  "max 0.5 (1.0 - (of_int p - 1) * 0.1) =
     (if p \<le> 6 then 1 - (of_int p - 1) / 10 else (0.5 :: real))"
proof (cases "p \<le> 6")
  case True
  then have "real_of_int p \<le> 6" by simp
  then show ?thesis using True by (simp add: max_def)
next
  case False
  then have "7 \<le> p" by simp
  then have "7 \<le> real_of_int p" by linarith
  then show ?thesis using False by (simp add: max_def)
qed

text \<open>
  Where the estimator returns: when no matched detection has a zero pixel dimension on its
  chosen axis and at least one detection matches, the result is the scale and the
  catalogue key of the matched detection of lowest priority rank, the first one in the
  detection list among equals, with the confidence
  \<open>max 0.5 (1.0 - (priority - 1) * 0.1)\<close>: 1.0 at rank 1, 0.1 less per rank, and 0.5 from
  rank 6 on.
\<close>

lemma estimate_scale_keeps_first_lowest_priority:
  assumes nz: "\<forall>m \<in> set (matched_refs dets). chosen_dimension (snd (snd m)) \<noteq> 0"
    and ne: "matched_refs dets \<noteq> []"
  shows "\<exists>pre n rd det post. matched_refs dets = pre @ (n, rd, det) # post
      \<and> (\<forall>x \<in> set pre. priority rd < ref_priority x)
      \<and> (\<forall>x \<in> set post. priority rd \<le> ref_priority x)
      \<and> estimate_scale_from_reference_objects dets w h =
          Inr (Some (chosen_scale rd det), Some n,
               max 0.5 (1.0 - (of_int (priority rd) - 1) * 0.1))
      \<and> max 0.5 (1.0 - (of_int (priority rd) - 1) * 0.1) =
          (if priority rd \<le> 6 then 1 - (of_int (priority rd) - 1) / 10 else (0.5 :: real))"
proof -
  from ne obtain m0 where m0: "m0 \<in> set (matched_refs dets)"
    by (cases "matched_refs dets") auto
  then have "ref_priority m0 < 999" by (rule matched_refs_priority)
  with m0 have "\<not> (\<forall>m \<in> set (matched_refs dets). 999 \<le> ref_priority m)"
    by (auto simp: not_le)
  with ref_loop_result [OF nz, of 999 None None]
  obtain pre m post where sp: "matched_refs dets = pre @ m # post"
    and lt: "\<forall>x \<in> set pre. ref_priority m < ref_priority x"
    and le: "\<forall>x \<in> set post. ref_priority m \<le> ref_priority x"
    and res: "ref_loop dets (None, 999, None) = Inr (picked m)"
    by blast
  obtain n rd det where m: "m = (n, rd, det)" by (cases m) auto
  have p: "ref_priority m = priority rd" by (simp add: ref_priority_def m)
  have "estimate_scale_from_reference_objects dets w h =
          Inr (Some (chosen_scale rd det), Some n,
               max 0.5 (1.0 - (of_int (priority rd) - 1) * 0.1))"
    by (simp add: estimate_scale_from_reference_objects_def res picked_def m)
  moreover have "\<forall>x \<in> set pre. priority rd < ref_priority x"
    using lt by (simp add: p)
  moreover have "\<forall>x \<in> set post. priority rd \<le> ref_priority x"
    using le by (simp add: p)
  moreover have "matched_refs dets = pre @ (n, rd, det) # post"
    using sp by (simp add: m)
  moreover note confidence_by_priority [of "priority rd"]
  ultimately show ?thesis by blast
qed

lemma matched_refs_example_detections: "matched_refs example_detections =
   [(''chair'', \<lparr>ref_width = 0.45, ref_height = 0.9, priority = 4\<rparr>, object_detection (''chair'', 0.7, 50, 400, 250, 700)),
    (''door'', \<lparr>ref_width = 0.9, ref_height = 2.1, priority = 1\<rparr>, object_detection (''Door'', 0.8, 600, 50, 900, 750)),
    (''bed'', \<lparr>ref_width = 1.9, ref_height = 0.5, priority = 1\<rparr>, object_detection (''bed'', 0.6, 100, 500, 600, 700))]"
  by (simp add: matched_refs_def example_detections_def match_ref_def object_detection_def
      find_ref_def REFERENCE_OBJECTS_def str_lower_def lower_char_def)


lemma estimate_scale_keeps_first_lowest_priority_example:
  "matched_refs example_detections \<noteq> []
   \<and> estimate_scale_from_reference_objects example_detections 1000 800
        = Inr (Some 0.003, Some ''door'', 1)"
proof -
  have ne: "matched_refs example_detections \<noteq> []"
    by (simp add: matched_refs_example_detections)
  have nz: "\<forall>m \<in> set (matched_refs example_detections). chosen_dimension (snd (snd m)) \<noteq> 0"
    by (simp add: matched_refs_example_detections chosen_dimension_def object_detection_def)
  from estimate_scale_keeps_first_lowest_priority [OF nz ne, of 1000 800]
  obtain pre n rd det post where sp: "matched_refs example_detections = pre @ (n, rd, det) # post"
    and lt: "\<forall>x \<in> set pre. priority rd < ref_priority x"
    and le: "\<forall>x \<in> set post. priority rd \<le> ref_priority x"
    and res: "estimate_scale_from_reference_objects example_detections 1000 800 =
          Inr (Some (chosen_scale rd det), Some n,
               max 0.5 (1.0 - (of_int (priority rd) - 1) * 0.1))"
    by blast
  from sp lt le have "n = ''door'' \<and> rd = \<lparr>ref_width = 0.9, ref_height = 2.1, priority = 1\<rparr>
      \<and> det = object_detection (''Door'', 0.8, 600, 50, 900, 750)"
    unfolding matched_refs_example_detections
    by (auto simp: Cons_eq_append_conv ref_priority_def)
  with res have "estimate_scale_from_reference_objects example_detections 1000 800
        = Inr (Some 0.003, Some ''door'', 1)"
    by (simp add: chosen_scale_def object_detection_def)
  with ne show ?thesis by blast
qed

text \<open>
  Claim C7. Among all detections matching a catalogue key the estimator is to keep the one
  of lowest priority rank, the first among equals, and return the confidence
  \<open>max 0.5 (1.0 - (priority - 1) * 0.1)\<close>. For the door alone the source does so: scale
  \<open>2.1 / 700\<close>, key "door", confidence 1.0. With the bed of zero width and height after
  the door, the door is still the first match of lowest rank, but the source divides for
  the bed before it compares the priorities and raises \<^verbatim>\<open>ZeroDivisionError\<close>: nothing is
  kept and no confidence is returned.
\<close>

theorem estimate_scale_door_lost_to_zero_box:
  "matched_refs door_and_degenerate_bed =
     [(''door'', \<lparr>ref_width = 0.9, ref_height = 2.1, priority = 1\<rparr>,
         object_detection (''door'', 0.8, 600, 50, 900, 750)),
      (''bed'', \<lparr>ref_width = 1.9, ref_height = 0.5, priority = 1\<rparr>,
         object_detection degenerate_bed)]
   \<and> estimate_scale_from_reference_objects door_only 1000 800
        = Inr (Some 0.003, Some ''door'', 1)
   \<and> estimate_scale_from_reference_objects door_and_degenerate_bed 1000 800
        = Inl ZeroDivisionError"
  by (simp add: estimate_scale_from_reference_objects_def door_only_def
      door_and_degenerate_bed_def degenerate_bed_def matched_refs_def match_ref_def
      object_detection_def find_ref_def REFERENCE_OBJECTS_def str_lower_def lower_char_def
      ref_scale_def py_div_def)

subsection \<open>The calibration-target locator\<close>

lemma in_set_map_filter:
  "y \<in> set (List.map_filter f xs) \<longleftrightarrow> (\<exists>x \<in> set xs. f x = Some y)"
  by (induction xs) (auto split: option.splits)

lemma ratio_positive_side:
  fixes m M :: real
  assumes le: "m \<le> M" and nz: "m \<noteq> 0" and asp: "12 / 10 \<le> M / m"
  shows "0 < m"
proof (rule ccontr)
  assume "\<not> 0 < m"
  with nz have neg: "m < 0" by linarith
  from le neg have "M / m \<le> m / m"
    by (intro divide_right_mono_neg) simp_all
  also have "\<dots> = 1" using nz by simp
  finally show False using asp by linarith
qed

lemma aspect_positive_side:
  fixes rw rh :: real
  assumes nz: "min rw rh \<noteq> 0" and asp: "12 / 10 \<le> max rw rh / min rw rh"
  shows "0 < min rw rh"
  by (rule ratio_positive_side [OF _ nz asp]) simp

lemma primary_candidate_Some:
  assumes "primary_candidate h w cnt = Some c"
  shows "cand_contour c = cnt \<and> cand_rect c = cnt_rect cnt
       \<and> 0 < min (fst (cnt_rect cnt)) (snd (cnt_rect cnt))"
proof -
  obtain rw rh where r: "cnt_rect cnt = (rw, rh)" by (cases "cnt_rect cnt") auto
  from assms have nz: "min rw rh \<noteq> 0"
    by (auto simp: primary_candidate_def Let_def r split: if_splits)
  from assms have asp: "12 / 10 \<le> max rw rh / min rw rh"
    by (auto simp: primary_candidate_def Let_def r not_less split: if_splits)
  from assms have "cand_contour c = cnt \<and> cand_rect c = cnt_rect cnt"
    by (auto simp: primary_candidate_def Let_def r split: if_splits)
  with aspect_positive_side [OF nz asp] show ?thesis by (simp add: r)
qed

lemma fallback_candidate_Some:
  assumes "fallback_candidate h w cnt = Some c"
  shows "cand_contour c = cnt \<and> cand_rect c = cnt_rect cnt
       \<and> 0 < min (fst (cnt_rect cnt)) (snd (cnt_rect cnt))"
proof -
  obtain rw rh where r: "cnt_rect cnt = (rw, rh)" by (cases "cnt_rect cnt") auto
  from assms show ?thesis
    by (auto simp: fallback_candidate_def Let_def r split: if_splits)
qed

lemma a4_candidates_rect:
  assumes "c \<in> set (a4_candidates h w cs bcs)"
  shows "cand_rect c = cnt_rect (cand_contour c)
       \<and> 0 < min (fst (cand_rect c)) (snd (cand_rect c))
       \<and> cand_contour c \<in> set cs \<union> set bcs"
proof -
  from assms have "(\<exists>cnt \<in> set cs. primary_candidate h w cnt = Some c)
      \<or> (\<exists>cnt \<in> set bcs. fallback_candidate h w cnt = Some c)"
    by (auto simp: a4_candidates_def Let_def in_set_map_filter split: if_splits)
  then show ?thesis
    using primary_candidate_Some [of h w _ c] fallback_candidate_Some [of h w _ c]
    by (metis UnI1 UnI2)
qed

lemma primary_candidate_image_area:
  assumes "primary_candidate h w cnt = Some c"
  shows "0 < h * w"
proof -
  from assms have a: "cnt_area cnt \<le> of_int (h * w) * 0.3"
    by (auto simp: primary_candidate_def Let_def not_less split: if_splits prod.splits)
  from assms have s: "0 < cnt_hull_area cnt \<and> 0.75 \<le> cnt_area cnt / cnt_hull_area cnt"
    by (auto simp: primary_candidate_def Let_def not_less split: if_splits prod.splits)
  have "(0::real) < 0.75" by simp
  with s have "0 < cnt_area cnt / cnt_hull_area cnt"
    by (metis less_le_trans)
  with s have "0 < cnt_area cnt" by (simp add: zero_less_divide_iff)
  with a have "0 < real_of_int (h * w)" by simp
  then show ?thesis by (simp only: of_int_0_less_iff)
qed

text \<open>
  Claim C6. Whenever at least one candidate survives, the locator returns normally the
  scale 0.297 divided by the longer side of the minimum-area rectangle of a candidate of
  maximal score, together with the bounding box of that candidate's contour; the longer
  side and the scale are strictly positive.
\<close>

theorem find_a4_calibration_selects_best:
  assumes "a4_candidates h_img w_img contours bright_contours \<noteq> []"
  shows "\<exists>best. best \<in> set (a4_candidates h_img w_img contours bright_contours)
      \<and> (\<forall>c \<in> set (a4_candidates h_img w_img contours bright_contours).
            cand_score c \<le> cand_score best)
      \<and> 0 < long_side_px (cand_contour best)
      \<and> 0 < 0.297 / long_side_px (cand_contour best)
      \<and> find_a4_calibration h_img w_img contours bright_contours =
          Inr (Some (0.297 / long_side_px (cand_contour best), bounding_box (cand_contour best)))"
proof -
  define cands where "cands = a4_candidates h_img w_img contours bright_contours"
  from assms obtain c cs where cc: "cands = c # cs"
    unfolding cands_def by (cases "a4_candidates h_img w_img contours bright_contours") auto
  define best where "best = max_key_from cand_score c cs"
  obtain pre post where sp: "c # cs = pre @ best # post"
    and lt: "\<forall>x \<in> set pre. cand_score x < cand_score best"
    and le: "\<forall>x \<in> set post. cand_score x \<le> cand_score best"
    using max_key_from_split [of c cs cand_score] unfolding best_def by blast
  have mem: "best \<in> set cands" unfolding cc sp by simp
  have mx: "\<forall>x \<in> set cands. cand_score x \<le> cand_score best"
  proof
    fix x assume "x \<in> set cands"
    then have "x \<in> set pre \<or> x = best \<or> x \<in> set post" unfolding cc sp by auto
    with lt le show "cand_score x \<le> cand_score best"
      using less_imp_le [of "cand_score x" "cand_score best"] by blast
  qed
  note props = a4_candidates_rect [OF mem [unfolded cands_def]]
  have rect: "cand_rect best = cnt_rect (cand_contour best)"
    using props by blast
  have pos: "0 < min (fst (cand_rect best)) (snd (cand_rect best))"
    using props by blast
  have ls: "0 < long_side_px (cand_contour best)"
    using pos unfolding long_side_px_def rect by (simp add: less_max_iff_disj)
  obtain rw rh where r: "cnt_rect (cand_contour best) = (rw, rh)"
    by (cases "cnt_rect (cand_contour best)") auto
  obtain x y w h where bb: "cnt_bounding (cand_contour best) = (x, y, w, h)"
    by (cases "cnt_bounding (cand_contour best)") auto
  have nz: "max rw rh \<noteq> 0"
    using ls by (simp add: long_side_px_def r)
  have "select_a4 cands =
      Inr (Some (0.297 / long_side_px (cand_contour best), bounding_box (cand_contour best)))"
    using nz
    by (simp add: select_a4_def cc best_def [symmetric] Let_def rect r bb long_side_px_def
        py_div_def bounding_box_def)
  with mem mx ls show ?thesis
    unfolding find_a4_calibration_def cands_def [symmetric] by (intro exI [of _ best]) simp
qed


theorem find_a4_calibration_selects_best_witness:
  "a4_candidates 800 1000 [a4_sheet] [] \<noteq> []
   \<and> find_a4_calibration 800 1000 [a4_sheet] [] =
        Inr (Some (0.297 / long_side_px a4_sheet, bounding_box a4_sheet))
   \<and> long_side_px a4_sheet = 297
   \<and> 0 < 0.297 / long_side_px a4_sheet"
proof -
  obtain c where cands: "a4_candidates 800 1000 [a4_sheet] [] = [c]"
    and cnt: "cand_contour c = a4_sheet"
    by (simp add: a4_candidates_def List.map_filter_def primary_candidate_def a4_sheet_def
        Let_def)
  have h: "a4_candidates 800 1000 [a4_sheet] [] \<noteq> []"
    by (simp add: cands)
  from find_a4_calibration_selects_best [OF h]
  obtain best where "best \<in> set (a4_candidates 800 1000 [a4_sheet] [])"
    and pos: "0 < 0.297 / long_side_px (cand_contour best)"
    and res: "find_a4_calibration 800 1000 [a4_sheet] [] =
          Inr (Some (0.297 / long_side_px (cand_contour best), bounding_box (cand_contour best)))"
    by blast
  then have "best = c" by (simp add: cands)
  with pos res cnt have "find_a4_calibration 800 1000 [a4_sheet] [] =
        Inr (Some (0.297 / long_side_px a4_sheet, bounding_box a4_sheet))
      \<and> 0 < 0.297 / long_side_px a4_sheet"
    by simp
  moreover have "long_side_px a4_sheet = 297"
    by (simp add: long_side_px_def a4_sheet_def)
  ultimately show ?thesis using h by blast
qed

subsection \<open>The synthesizer\<close>

lemma room_confidence_spatial_measurements:
  "room_confidence (spatial_measurements m t d w h rt rc ro) = Some (py_round_nd (rc * 100) 1)"
  by (simp add: spatial_measurements_def Let_def split: option.splits)

lemma estimation_method_spatial_measurements:
  "estimation_method (spatial_measurements m t d w h rt rc ro) = None"
  by (simp add: spatial_measurements_def Let_def split: option.splits)

lemma spatial_of_cases:
  assumes "spatial_of (detect_defects io) = Some sd"
  shows "(io = None \<and> sd = \<lparr>width = Some 0, height = Some 0, length' = Some 0, area = Some 0,
           room_type = Some ''unknown'', room_confidence = Some 0,
           reference_object = None, area_confidence = None, estimation_method = None\<rparr>)
       \<or> (\<exists>img m t d ro. io = Some img \<and> sd = spatial_measurements m t d (snd (img_shape img)) (fst (img_shape img))
               (fst (img_room img)) (snd (img_room img)) ro)"
  using assms
  by (auto simp: spatial_of_def detect_defects_def Let_def split: option.splits sum.splits prod.splits)

lemma spatial_measurements_floor:
  "tot \<le> 0 \<Longrightarrow>
   spatial_measurements (Some s) tot md w h rt rc ro =
     \<lparr>width = Some (of_int w * s), height = Some 2.7, length' = Some (of_int h * s * 0.8),
      area = Some (of_int w * of_int h * 0.6 * s ^ 2),
      room_type = Some rt, room_confidence = Some (py_round_nd (rc * 100) 1),
      reference_object = ro, area_confidence = None, estimation_method = None\<rparr>"
  by (simp add: spatial_measurements_def Let_def)

text \<open>
  Claim C5. For an image of \<open>w\<close> by \<open>h\<close> pixels with no crack box for which a scale \<open>s\<close> is
  present, from the calibration target or, when there is no target, from a reference
  object, \<open>detect_defects\<close> returns a calibrated measurement with
  area \<open>0.6 * w * h * s\<^sup>2\<close>, width \<open>w * s\<close>, length \<open>h * s * 0.8\<close> and height 2.7.
\<close>

theorem detect_defects_floor_estimate:
  assumes cracks: "img_cracks img = []"
    and shape: "img_shape img = (h, w)"
    and scale:
      "find_a4_calibration h w (img_contours img) (img_bright_contours img) = Inr (Some (s, bb))
       \<or> (find_a4_calibration h w (img_contours img) (img_bright_contours img) = Inr None
          \<and> estimate_scale_from_reference_objects (map object_detection (img_objects img)) w h
              = Inr (Some s, ro, cf))"
  shows "\<exists>sd. spatial_of (detect_defects (Some img)) = Some sd
      \<and> calibrated_of (detect_defects (Some img)) = Some True
      \<and> area sd = Some (0.6 * of_int w * of_int h * s ^ 2)
      \<and> width sd = Some (of_int w * s)
      \<and> length' sd = Some (of_int h * s * 0.8)
      \<and> height sd = Some 2.7"
  using scale
proof
  assume "find_a4_calibration h w (img_contours img) (img_bright_contours img) = Inr (Some (s, bb))"
  then show ?thesis
    by (simp add: detect_defects_def spatial_of_def calibrated_of_def shape cracks
        spatial_measurements_floor split: prod.splits)
next
  assume "find_a4_calibration h w (img_contours img) (img_bright_contours img) = Inr None
          \<and> estimate_scale_from_reference_objects (map object_detection (img_objects img)) w h
              = Inr (Some s, ro, cf)"
  then show ?thesis
    by (simp add: detect_defects_def spatial_of_def calibrated_of_def shape cracks
        spatial_measurements_floor split: prod.splits)
qed

text \<open>
  The instance of the claim: scale 0.001 and an image of 1000 by 800 pixels give area 0.48,
  width 1.0, length 0.64 and height 2.7.
\<close>

theorem detect_defects_floor_estimate_witness:
  "\<exists>sd. spatial_of (detect_defects (Some example_calibrated)) = Some sd
      \<and> calibrated_of (detect_defects (Some example_calibrated)) = Some True
      \<and> area sd = Some 0.48 \<and> width sd = Some 1.0 \<and> length' sd = Some 0.64
      \<and> height sd = Some 2.7"
proof -
  have c: "img_cracks example_calibrated = []"
    by (simp add: example_calibrated_def)
  have sh: "img_shape example_calibrated = (800, 1000)"
    by (simp add: example_calibrated_def)
  have sc: "find_a4_calibration 800 1000 (img_contours example_calibrated)
       (img_bright_contours example_calibrated) = Inr (Some (0.001, [100, 100, 297, 210]))"
    using find_a4_calibration_a4_sheet by (simp add: example_calibrated_def)
  show ?thesis
    using detect_defects_floor_estimate [OF c sh disjI1 [OF sc]]
    by (simp add: power2_eq_square)
qed


lemma Max_insert_max:
  fixes a b :: real
  assumes "finite S"
  shows "Max (insert (max a b) S) = Max (insert a (insert b S))"
proof (cases "S = {}")
  case True
  then show ?thesis by simp
next
  case False
  with assms show ?thesis by (simp add: max.assoc)
qed

lemma crack_loop_eq:
  "crack_loop boxes (t, m, n) =
     (t + aggregate_pixel_area boxes, Max (insert m (set (box_dims boxes))), n + length boxes)"
proof (induction boxes arbitrary: t m n)
  case Nil
  then show ?case by (simp add: aggregate_pixel_area_def box_dims_def)
next
  case (Cons b boxes)
  obtain conf x1 y1 x2 y2 where b: "b = (conf, x1, y1, x2, y2)"
    by (cases b) auto
  have fin: "finite (set (box_dims boxes))" by simp
  have "Max (insert (max (max m (x2 - x1)) (y2 - y1)) (set (box_dims boxes)))
      = Max (insert m (insert (x2 - x1) (insert (y2 - y1) (set (box_dims boxes)))))"
    using Max_insert_max [of "insert (y2 - y1) (set (box_dims boxes))" m "x2 - x1"]
      Max_insert_max [OF fin, of "max m (x2 - x1)" "y2 - y1"]
    by (simp add: insert_commute)
  moreover have "box_dims (b # boxes) = (x2 - x1) # (y2 - y1) # box_dims boxes"
    by (simp add: box_dims_def b)
  moreover have "aggregate_pixel_area (b # boxes) = (x2 - x1) * (y2 - y1) + aggregate_pixel_area boxes"
    by (simp add: aggregate_pixel_area_def b)
  ultimately show ?case
    by (simp add: b Cons.IH Let_def)
qed

lemma positive_area_dimension:
  assumes wf: "\<forall>b \<in> set boxes. well_formed_box b"
    and pos: "0 < aggregate_pixel_area boxes"
  shows "0 < max_crack_dimension boxes \<and>
         Max (insert 0 (set (box_dims boxes))) = max_crack_dimension boxes"
proof -
  have "\<exists>b \<in> set boxes. 0 < (case b of (conf, x1, y1, x2, y2) \<Rightarrow> (x2 - x1) * (y2 - y1))"
  proof (rule ccontr)
    assume "\<not> ?thesis"
    then have "\<forall>v \<in> set (map (\<lambda>(conf, x1, y1, x2, y2). (x2 - x1) * (y2 - y1)) boxes). v \<le> 0"
      by (auto simp: not_less)
    then have "aggregate_pixel_area boxes \<le> 0"
      unfolding aggregate_pixel_area_def by (intro sum_list_nonpos) blast
    with pos show False by simp
  qed
  then obtain conf x1 y1 x2 y2 where mem: "(conf, x1, y1, x2, y2) \<in> set boxes"
    and prod: "0 < (x2 - x1) * (y2 - y1)"
    by auto
  from wf mem have "0 \<le> x2 - x1" "0 \<le> y2 - y1"
    by (auto simp: well_formed_box_def)
  with prod have bw: "0 < x2 - x1"
    by (metis less_eq_real_def mult_zero_left order_less_irrefl)
  have in_dims: "x2 - x1 \<in> set (box_dims boxes)"
    using mem by (force simp: box_dims_def)
  then have "x2 - x1 \<le> Max (set (box_dims boxes))"
    by (intro Max_ge) simp_all
  with bw have D: "0 < max_crack_dimension boxes"
    by (simp add: max_crack_dimension_def)
  have "set (box_dims boxes) \<noteq> {}" using in_dims by auto
  then have "Max (insert 0 (set (box_dims boxes))) = max 0 (Max (set (box_dims boxes)))"
    by simp
  with D show ?thesis by (simp add: max_crack_dimension_def)
qed

lemma spatial_measurements_crack:
  "0 < tot \<Longrightarrow> 0 < md \<Longrightarrow>
   spatial_measurements (Some s) tot md w h rt rc ro =
     \<lparr>width = Some (tot / md * s), height = Some (tot / md * s), length' = Some (md * s),
      area = Some (tot * s ^ 2),
      room_type = Some rt, room_confidence = Some (py_round_nd (rc * 100) 1),
      reference_object = ro, area_confidence = None, estimation_method = None\<rparr>"
  by (simp add: spatial_measurements_def Let_def)

text \<open>
  Claim C4, as amended. For an image for which a scale \<open>s\<close> is present and whose crack
  boxes are well formed and have an aggregate pixel area \<open>A > 0\<close>, with \<open>D\<close> the maximum
  of the widths and heights of the crack boxes: \<open>D > 0\<close>, and \<open>detect_defects\<close> returns a
  calibrated measurement with area \<open>A * s\<^sup>2\<close>, length \<open>D * s\<close>, width \<open>(A / D) * s\<close> and height
  equal to the width.
\<close>

theorem detect_defects_crack_measurement:
  assumes wf: "\<forall>b \<in> set (img_cracks img). well_formed_box b"
    and pos: "0 < aggregate_pixel_area (img_cracks img)"
    and shape: "img_shape img = (h, w)"
    and scale:
      "find_a4_calibration h w (img_contours img) (img_bright_contours img) = Inr (Some (s, bb))
       \<or> (find_a4_calibration h w (img_contours img) (img_bright_contours img) = Inr None
          \<and> estimate_scale_from_reference_objects (map object_detection (img_objects img)) w h
              = Inr (Some s, ro, cf))"
  shows "\<exists>sd. spatial_of (detect_defects (Some img)) = Some sd
      \<and> calibrated_of (detect_defects (Some img)) = Some True
      \<and> 0 < max_crack_dimension (img_cracks img)
      \<and> area sd = Some (aggregate_pixel_area (img_cracks img) * s ^ 2)
      \<and> length' sd = Some (max_crack_dimension (img_cracks img) * s)
      \<and> width sd = Some (aggregate_pixel_area (img_cracks img) / max_crack_dimension (img_cracks img) * s)
      \<and> height sd = width sd"
proof -
  note D = positive_area_dimension [OF wf pos]
  have loop: "crack_loop (img_cracks img) (0, 0, 0) =
      (aggregate_pixel_area (img_cracks img), max_crack_dimension (img_cracks img),
       length (img_cracks img))"
    using D by (simp add: crack_loop_eq)
  from scale show ?thesis
  proof
    assume "find_a4_calibration h w (img_contours img) (img_bright_contours img) = Inr (Some (s, bb))"
    then show ?thesis
      using D pos
      by (simp add: detect_defects_def spatial_of_def calibrated_of_def shape loop
          spatial_measurements_crack split: prod.splits)
  next
    assume "find_a4_calibration h w (img_contours img) (img_bright_contours img) = Inr None
          \<and> estimate_scale_from_reference_objects (map object_detection (img_objects img)) w h
              = Inr (Some s, ro, cf)"
    then show ?thesis
      using D pos
      by (simp add: detect_defects_def spatial_of_def calibrated_of_def shape loop
          spatial_measurements_crack split: prod.splits)
  qed
qed


theorem detect_defects_crack_measurement_witness:
  "list_all well_formed_box (img_cracks example_crack)
   \<and> 0 < aggregate_pixel_area (img_cracks example_crack)
   \<and> (\<exists>sd. spatial_of (detect_defects (Some example_crack)) = Some sd
        \<and> calibrated_of (detect_defects (Some example_crack)) = Some True
        \<and> area sd = Some 0.001 \<and> length' sd = Some 0.05
        \<and> width sd = Some 0.02 \<and> height sd = Some 0.02)"
proof -
  have wf: "\<forall>b \<in> set (img_cracks example_crack). well_formed_box b"
    by (simp add: example_crack_def well_formed_box_def)
  have A: "aggregate_pixel_area (img_cracks example_crack) = 1000"
    by (simp add: example_crack_def aggregate_pixel_area_def)
  have D: "max_crack_dimension (img_cracks example_crack) = 50"
    by (simp add: example_crack_def max_crack_dimension_def box_dims_def)
  have pos: "0 < aggregate_pixel_area (img_cracks example_crack)"
    by (simp add: A)
  have sh: "img_shape example_crack = (800, 1000)"
    by (simp add: example_crack_def example_calibrated_def)
  have sc: "find_a4_calibration 800 1000 (img_contours example_crack)
       (img_bright_contours example_crack) = Inr (Some (0.001, [100, 100, 297, 210]))"
    using find_a4_calibration_a4_sheet by (simp add: example_crack_def example_calibrated_def)
  from detect_defects_crack_measurement [OF wf pos sh disjI1 [OF sc]]
  obtain sd where sd: "spatial_of (detect_defects (Some example_crack)) = Some sd"
    and cal: "calibrated_of (detect_defects (Some example_crack)) = Some True"
    and a: "area sd = Some (1000 * 0.001 ^ 2)"
    and l: "length' sd = Some (50 * 0.001)"
    and w: "width sd = Some (1000 / 50 * 0.001)"
    and h: "height sd = width sd"
    unfolding A D by blast
  have "area sd = Some 0.001 \<and> length' sd = Some 0.05
        \<and> width sd = Some 0.02 \<and> height sd = Some 0.02"
    using a l w h by (simp add: power2_eq_square)
  moreover have "list_all well_formed_box (img_cracks example_crack)"
    using wf by (simp add: list_all_iff)
  ultimately show ?thesis using pos sd cal by blast
qed

text \<open>
  The claim as stated, for every calibrated image with at least one crack detection, fails
  on a crack box of zero width: the aggregate pixel area is 0 and the maximal dimension is
  50, so the claim gives area 0, length 0.05 and height 0, but the source tests
  \<open>total_crack_pixel_area > 0\<close> and returns the floor estimate.
\<close>

theorem detect_defects_degenerate_crack_counterexample:
  "img_cracks example_degenerate_crack \<noteq> []
   \<and> find_a4_calibration 800 1000 (img_contours example_degenerate_crack)
        (img_bright_contours example_degenerate_crack) = Inr (Some (0.001, [100, 100, 297, 210]))
   \<and> aggregate_pixel_area (img_cracks example_degenerate_crack) * 0.001 ^ 2 = 0
   \<and> max_crack_dimension (img_cracks example_degenerate_crack) * 0.001 = 0.05
   \<and> map_option area (spatial_of (detect_defects (Some example_degenerate_crack))) = Some (Some 0.48)
   \<and> map_option length' (spatial_of (detect_defects (Some example_degenerate_crack))) = Some (Some 0.64)
   \<and> map_option height (spatial_of (detect_defects (Some example_degenerate_crack))) = Some (Some 2.7)"
  using find_a4_calibration_a4_sheet
  by (simp add: detect_defects_example_degenerate_crack example_calibrated_measurement_def)
     (simp add: example_degenerate_crack_def example_calibrated_def aggregate_pixel_area_def
        max_crack_dimension_def box_dims_def)

text \<open>
  On every input, readable or not, and whichever path supplied the scale, the measurement
  returned by \<open>detect_defects\<close> has no key \<open>estimation_method\<close>; the fuser then reads the
  absent key with its default "unknown".
\<close>

lemma detect_defects_no_estimation_method:
  assumes "spatial_of (detect_defects io) = Some sd"
  shows "estimation_method sd = None \<and> estimation_method (fused_from sd) = Some ''unknown''"
  using spatial_of_cases [OF assms]
  by (auto simp: estimation_method_spatial_measurements fused_from_def get_default_def)

text \<open>
  Claim C3. Every measurement is to carry an \<open>estimation_method\<close> that is
  \<open>calibration_target\<close> when the scale came from the calibration target. On the image
  \<open>example_calibrated\<close> the locator supplies the scale 0.001, and the measurement returned
  by \<open>detect_defects\<close> has no \<open>estimation_method\<close> at all; the fuser, which reads the key,
  reports "unknown" for it.
\<close>

theorem detect_defects_drops_estimation_method:
  "find_a4_calibration 800 1000 (img_contours example_calibrated)
        (img_bright_contours example_calibrated) = Inr (Some (0.001, [100, 100, 297, 210]))
   \<and> map_option estimation_method (spatial_of (detect_defects (Some example_calibrated)))
       = Some None
   \<and> map_option estimation_method (spatial_of (detect_defects (Some example_calibrated)))
       \<noteq> Some (Some ''calibration_target'')
   \<and> map_option (estimation_method \<circ> fused_from)
        (spatial_of (detect_defects (Some example_calibrated))) = Some (Some ''unknown'')"
  using find_a4_calibration_a4_sheet
  by (simp add: detect_defects_example_calibrated example_calibrated_measurement_def
        fused_from_def get_default_def)
     (simp add: example_calibrated_def)

text \<open>
  Claim C8, as amended. When the classifier's probability is in \<open>[0, 1]\<close>, the
  \<open>room_confidence\<close> of every measurement returned by \<open>detect_defects\<close> is the
  probability times 100 rounded to one decimal, or 0 for an unreadable image, and it is
  in \<open>[0, 100]\<close>.
\<close>

theorem detect_defects_room_confidence_percent:
  assumes prob: "\<forall>img. io = Some img \<longrightarrow> 0 \<le> snd (img_room img) \<and> snd (img_room img) \<le> 1"
    and res: "spatial_of (detect_defects io) = Some sd"
  shows "\<exists>r. room_confidence sd = Some r
      \<and> r = (case io of None \<Rightarrow> 0 | Some img \<Rightarrow> py_round_nd (snd (img_room img) * 100) 1)
      \<and> 0 \<le> r \<and> r \<le> 100"
  using spatial_of_cases [OF res]
proof (elim disjE exE conjE)
  assume "io = None"
    and "sd = \<lparr>width = Some 0, height = Some 0, length' = Some 0, area = Some 0,
           room_type = Some ''unknown'', room_confidence = Some 0,
           reference_object = None, area_confidence = None, estimation_method = None\<rparr>"
  then show ?thesis by simp
next
  fix img m t d ro
  assume io: "io = Some img"
    and sd: "sd = spatial_measurements m t d (snd (img_shape img)) (fst (img_shape img))
               (fst (img_room img)) (snd (img_room img)) ro"
  from prob io have "0 \<le> snd (img_room img) * 100" "snd (img_room img) * 100 \<le> 100"
    by simp_all
  from py_round_nd_1_bounds [OF this]
  have b: "0 \<le> py_round_nd (snd (img_room img) * 100) 1"
    "py_round_nd (snd (img_room img) * 100) 1 \<le> 100"
    by blast+
  have rc: "room_confidence sd = Some (py_round_nd (snd (img_room img) * 100) 1)"
    unfolding sd by (rule room_confidence_spatial_measurements)
  have c: "(case io of None \<Rightarrow> 0 | Some img \<Rightarrow> py_round_nd (snd (img_room img) * 100) 1)
      = py_round_nd (snd (img_room img) * 100) 1"
    by (simp add: io)
  from rc b show ?thesis unfolding c by blast
qed

theorem detect_defects_room_confidence_percent_witness:
  "0 \<le> snd (img_room example_calibrated) \<and> snd (img_room example_calibrated) \<le> 1
   \<and> spatial_of (detect_defects (Some example_calibrated)) = Some example_calibrated_measurement
   \<and> py_round_nd (snd (img_room example_calibrated) * 100) 1 = 50
   \<and> room_confidence example_calibrated_measurement = Some 50"
proof -
  have h: "\<forall>img. Some example_calibrated = Some img \<longrightarrow>
        0 \<le> snd (img_room img) \<and> snd (img_room img) \<le> 1"
    by (simp add: example_calibrated_def)
  have p: "0 \<le> snd (img_room example_calibrated) \<and> snd (img_room example_calibrated) \<le> 1"
    by (simp add: example_calibrated_def)
  have v: "py_round_nd (snd (img_room example_calibrated) * 100) 1 = 50"
    by (simp add: example_calibrated_def py_round_nd_50)
  from detect_defects_room_confidence_percent [OF h detect_defects_example_calibrated]
  have "room_confidence example_calibrated_measurement
      = Some (py_round_nd (snd (img_room example_calibrated) * 100) 1)"
    by simp
  with v have "room_confidence example_calibrated_measurement = Some 50"
    by (simp only:)
  with p v detect_defects_example_calibrated show ?thesis by blast
qed

text \<open>
  The claim as stated fails on a classifier probability of 0.5: the measurement carries
  the room confidence 50, which is not in \<open>[0, 1]\<close>.
\<close>

theorem detect_defects_room_confidence_counterexample:
  "snd (img_room example_calibrated) = 0.5
   \<and> map_option room_confidence (spatial_of (detect_defects (Some example_calibrated)))
       = Some (Some 50)
   \<and> \<not> (50 :: real) \<le> 1"
  by (simp add: detect_defects_example_calibrated example_calibrated_measurement_def)
     (simp add: example_calibrated_def)

subsection \<open>The fuser\<close>

lemma add_vote_nonempty: "add_vote votes rt conf \<noteq> []"
  by (induction votes rt conf rule: add_vote.induct) auto

lemma vote_loop_nonempty: "room_types \<noteq> [] \<or> votes \<noteq> [] \<Longrightarrow> vote_loop room_types votes \<noteq> []"
  by (induction room_types votes rule: vote_loop.induct) (auto simp: add_vote_nonempty)

lemma room_vote_returns: "\<exists>rt rc. room_vote room_types = Inr (rt, rc)"
proof (cases room_types)
  case Nil
  then show ?thesis by (simp add: room_vote_def)
next
  case (Cons a list)
  then have "vote_loop room_types [] \<noteq> []" by (intro vote_loop_nonempty) simp
  then obtain v vs where "vote_loop room_types [] = v # vs" by (cases "vote_loop room_types []") auto
  with Cons show ?thesis
    by (auto simp: room_vote_def py_max_key_def py_div_def split: prod.splits)
qed

text \<open>
  Claim C1, as amended. For every non-empty list of measurements the fuser returns
  normally, and there is an index \<open>i\<close> whose area confidence (0 when absent) is maximal
  and strictly greater than that of every earlier record, such that the fused width,
  height, length, estimation method and reference object are those of record \<open>i\<close> (with
  the defaults 0, 2.7, 0 and "unknown" for absent keys) and the fused area is the area of
  record \<open>i\<close> rounded to two decimals.
\<close>

theorem fuse_takes_first_best:
  assumes "all_spatial \<noteq> []"
  shows "\<exists>i fused. fused_of (fuse all_spatial room_types) = Some fused
     \<and> i < length all_spatial
     \<and> (\<forall>j < length all_spatial. confidence_of (all_spatial ! j) \<le> confidence_of (all_spatial ! i))
     \<and> (\<forall>j < i. confidence_of (all_spatial ! j) < confidence_of (all_spatial ! i))
     \<and> width fused = Some (get_default (width (all_spatial ! i)) 0)
     \<and> height fused = Some (get_default (height (all_spatial ! i)) 2.7)
     \<and> length' fused = Some (get_default (length' (all_spatial ! i)) 0)
     \<and> area fused = Some (py_round_nd (get_default (area (all_spatial ! i)) 0) 2)
     \<and> estimation_method fused = Some (get_default (estimation_method (all_spatial ! i)) ''unknown'')
     \<and> reference_object fused = reference_object (all_spatial ! i)"
proof -
  from assms have "0 < length all_spatial" by simp
  from max_key_from_index [OF this, of "\<lambda>i. confidence_of (all_spatial ! i)"]
  obtain i where idx: "best_index all_spatial = Inr i"
    and i: "i < length all_spatial"
    and ge: "\<forall>j < length all_spatial. confidence_of (all_spatial ! j) \<le> confidence_of (all_spatial ! i)"
    and gt: "\<forall>j < i. confidence_of (all_spatial ! j) < confidence_of (all_spatial ! i)"
    unfolding best_index_def confidence_of_def by blast
  obtain rt rc where rv: "room_vote room_types = Inr (rt, rc)"
    using room_vote_returns by blast
  have "fused_of (fuse all_spatial room_types) = Some (fused_from (all_spatial ! i))"
    using assms by (simp add: fuse_def idx rv fused_of_def Let_def)
  with i ge gt show ?thesis
    by (intro exI [of _ i] exI [of _ "fused_from (all_spatial ! i)"]) (simp add: fused_from_def)
qed


theorem fuse_takes_first_best_witness:
  "example_measurements \<noteq> []
   \<and> (\<exists>fused. fused_of (fuse example_measurements example_room_types) = Some fused
        \<and> width fused = Some 4 \<and> height fused = Some 2.7 \<and> length' fused = Some 3.2
        \<and> area fused = Some 7.68
        \<and> estimation_method fused = Some ''calibration_target''
        \<and> reference_object fused = None)"
proof -
  have h: "example_measurements \<noteq> []"
    by (simp add: example_measurements_def)
  have len: "length example_measurements = 3"
    by (simp add: example_measurements_def)
  have c0: "confidence_of (example_measurements ! 0) = 0.9"
    and c1: "confidence_of (example_measurements ! 1) = 0.4"
    and c2: "confidence_of (example_measurements ! 2) = 0.6"
    by (simp_all add: example_measurements_def confidence_of_def get_default_def)
  have r: "py_round_nd (768 / 100) 2 = 768 / 100"
    by (simp add: py_round_nd_def py_round_def Let_def)
  from fuse_takes_first_best [OF h, of example_room_types]
  obtain i fused where f: "fused_of (fuse example_measurements example_room_types) = Some fused"
    and i: "i < length example_measurements"
    and ge: "\<forall>j < length example_measurements.
        confidence_of (example_measurements ! j) \<le> confidence_of (example_measurements ! i)"
    and vals: "width fused = Some (get_default (width (example_measurements ! i)) 0)"
      "height fused = Some (get_default (height (example_measurements ! i)) 2.7)"
      "length' fused = Some (get_default (length' (example_measurements ! i)) 0)"
      "area fused = Some (py_round_nd (get_default (area (example_measurements ! i)) 0) 2)"
      "estimation_method fused =
         Some (get_default (estimation_method (example_measurements ! i)) ''unknown'')"
      "reference_object fused = reference_object (example_measurements ! i)"
    by blast
  from i len have "i = 0 \<or> i = 1 \<or> i = 2" by arith
  moreover from ge len have "confidence_of (example_measurements ! 0)
      \<le> confidence_of (example_measurements ! i)" by simp
  ultimately have i0: "i = 0" using c0 c1 c2 by auto
  have "width fused = Some 4 \<and> height fused = Some 2.7 \<and> length' fused = Some 3.2
        \<and> area fused = Some 7.68
        \<and> estimation_method fused = Some ''calibration_target''
        \<and> reference_object fused = None"
    using vals r unfolding i0 by (simp add: example_measurements_def get_default_def)
  with f h show ?thesis by blast
qed

text \<open>
  The claim as stated, with the fused area equal to the area of the best record, fails on
  a record of area 0.4806: the fused area is 0.48.
\<close>

theorem fuse_rounds_area_counterexample:
  "area unrounded_measurement = Some 0.4806
   \<and> map_option area (fused_of (fuse [unrounded_measurement] [(''Bedroom'', 50)]))
       = Some (Some 0.48)
   \<and> map_option area (fused_of (fuse [unrounded_measurement] [(''Bedroom'', 50)]))
       \<noteq> Some (area unrounded_measurement)"
  by (simp add: fuse_def best_index_def py_max_key_def room_vote_def py_div_def fused_of_def
      fused_from_def unrounded_measurement_def get_default_def py_round_nd_def py_round_def
      Let_def)

end
